theory Spec2Isabelle
  imports Main "HOL-Library.Word"
begin

section \<open>The Novile editor widget (src/editor.cpp)\<close>

text \<open>
  The widget wraps a web view that hosts the Ace editor. Every public operation of
  \<open>Editor\<close> builds a JavaScript source string and hands it to
  \<open>EditorPrivate::executeJavaScript\<close>, which forwards it to the page's main frame.
  The web view, its page and the Qt value classes are not part of the file: the web view
  is a parameter of the model (a state \<open>'w\<close> and the functions acting on it), and the
  few Qt value classes the file uses are modelled below.
\<close>

subsection \<open>Qt values\<close>

text \<open>
  A \<open>QString\<close> is modelled as a \<open>string\<close>. The quote and the backslash cannot end an
  Isabelle string literal, so they get names.
\<close>

definition sq :: char where
  "sq = CHR 0x27"


definition backslash :: char where
  "backslash = CHR 0x5C"

definition LF :: char where
  "LF = CHR 0x0A"

definition CR :: char where
  "CR = CHR 0x0D"

text \<open>
  \<open>QVariant\<close>, as far as the results of evaluating JavaScript go: the invalid variant
  (what the frame returns for \<open>undefined\<close> and for a script that throws), a boolean, an
  integer or a string.
\<close>

datatype QVariant = QInvalid | QBool bool | QInt int | QString string

text \<open>\<open>QString::number(int)\<close>: the decimal digits, with a minus sign below zero.\<close>

definition digit_char :: "nat \<Rightarrow> char" where
  "digit_char d = char_of (48 + d)"

fun digits :: "nat \<Rightarrow> string" where
  "digits n = (if n < 10 then [digit_char n] else digits (n div 10) @ [digit_char (n mod 10)])"

declare digits.simps [simp del]

definition number :: "int \<Rightarrow> string" where
  "number n = (if n < 0 then CHR ''-'' # digits (nat (- n)) else digits (nat n))"

text \<open>
  Reading a decimal integer back, for \<open>QVariant::toInt\<close> on a string and for the page's
  own reading of a number.
\<close>

definition is_digit :: "char \<Rightarrow> bool" where
  "is_digit c = ((48::nat) \<le> of_char c \<and> of_char c \<le> (57::nat))"

definition digit_val :: "char \<Rightarrow> nat" where
  "digit_val c = of_char c - 48"

fun digits_val :: "nat \<Rightarrow> string \<Rightarrow> nat option" where
  "digits_val acc [] = Some acc"
| "digits_val acc (c # cs) =
     (if is_digit c then digits_val (10 * acc + digit_val c) cs else None)"

definition read_number :: "string \<Rightarrow> int option" where
  "read_number s =
     (case s of
        [] \<Rightarrow> None
      | c # cs \<Rightarrow>
          if c = CHR ''-'' then (if cs = [] then None else map_option (\<lambda>n. - int n) (digits_val 0 cs))
          else map_option int (digits_val 0 s))"

text \<open>
  Modelled from the spec: the conversions of \<open>QVariant\<close> belong to Qt and are not in the
  sources. Section 7 of the specification gives what they return when the evaluation
  produced nothing usable: zero, the empty string and false. On the other variants they
  convert as Qt documents it.
\<close>

fun toInt :: "QVariant \<Rightarrow> int" where
  "toInt QInvalid = 0"
| "toInt (QBool b) = (if b then 1 else 0)"
| "toInt (QInt n) = n"
| "toInt (QString s) = (case read_number s of None \<Rightarrow> 0 | Some n \<Rightarrow> n)"

fun toString :: "QVariant \<Rightarrow> string" where
  "toString QInvalid = []"
| "toString (QBool b) = (if b then ''true'' else ''false'')"
| "toString (QInt n) = number n"
| "toString (QString s) = s"

fun toBool :: "QVariant \<Rightarrow> bool" where
  "toBool QInvalid = False"
| "toBool (QBool b) = b"
| "toBool (QInt n) = (n \<noteq> 0)"
| "toBool (QString s) = (s \<noteq> [] \<and> s \<noteq> ''0'' \<and> s \<noteq> ''false'')"

text \<open>
  A \<open>QUrl\<close> is modelled by the text \<open>QUrl::toString\<close> gives for it. The URLs the file
  builds itself (\<open>qrc:/ace/mode-c_cpp.js\<close> and the like) are already in that form.
\<close>

datatype QUrl = QUrl string

fun url_toString :: "QUrl \<Rightarrow> string" where
  "url_toString (QUrl s) = s"

subsection \<open>The bridge: \<open>EditorPrivate\<close>\<close>

text \<open>
  What the bridge asks of the web view:
  \<^item> \<open>load\<close>: \<open>QWebView::load\<close>, which starts the load and returns;
  \<^item> \<open>loadFinished\<close>: what the web view has become when it emits \<open>loadFinished(ok)\<close>;
  \<^item> \<open>addToJavaScriptWindowObject\<close>: \<open>QWebFrame::addToJavaScriptWindowObject\<close>;
  \<^item> \<open>readAll\<close>: \<open>QFile::open(QIODevice::ReadOnly)\<close> and \<open>readAll\<close> on a resource,
    \<open>None\<close> when the file does not open;
  \<^item> \<open>evaluateJavaScript\<close>: \<open>QWebFrame::evaluateJavaScript\<close>.
\<close>

record 'w WebView =
  load :: "string \<Rightarrow> 'w \<Rightarrow> 'w"
  loadFinished :: "bool \<Rightarrow> 'w \<Rightarrow> 'w"
  addToJavaScriptWindowObject :: "string \<Rightarrow> 'w \<Rightarrow> 'w"
  readAll :: "string \<Rightarrow> string option"
  evaluateJavaScript :: "string \<Rightarrow> 'w \<Rightarrow> QVariant \<times> 'w"

text \<open>
  What happens on the web view, recorded in order: the calls the bridge makes on it and
  the \<open>loadFinished\<close> signal the bridge receives from it.
\<close>

datatype event =
    Load string
  | LoadFinished bool
  | AddObject string
  | Evaluate string

text \<open>
  \<open>EditorPrivate\<close>: of its members only \<open>aceView\<close> carries state (\<open>parent\<close> and
  \<open>layout\<close> are widget plumbing). \<open>issued\<close> is a ghost field: the history of the calls
  made on the web view.
\<close>

record 'w EditorPrivate =
  aceView :: 'w
  issued :: "event list"

text \<open>
  \<open>executeJavaScript\<close> and the public operations use nothing of the web view but the
  evaluation of its main frame, so they take that function, \<open>ev\<close>, alone.
\<close>

type_synonym 'w evaluate = "string \<Rightarrow> 'w \<Rightarrow> QVariant \<times> 'w"

definition executeJavaScript ::
  "'w evaluate \<Rightarrow> string \<Rightarrow> 'w EditorPrivate \<Rightarrow> QVariant \<times> 'w EditorPrivate" where
  "executeJavaScript ev code d =
     (case ev code (aceView d) of
        (v, w) \<Rightarrow> (v, d\<lparr>aceView := w, issued := issued d @ [Evaluate code]\<rparr>))"

subsection \<open>The facade: \<open>Editor\<close>\<close>

definition lines :: "'w evaluate \<Rightarrow> 'w EditorPrivate \<Rightarrow> int \<times> 'w EditorPrivate" where
  "lines ev d = (case executeJavaScript ev ''property('lines')'' d of (v, d') \<Rightarrow> (toInt v, d'))"

text \<open>\<open>lineNumber\<close> is a C++ \<open>int\<close>: a 32-bit word read as a signed number.\<close>

definition gotoLine :: "'w evaluate \<Rightarrow> 32 word \<Rightarrow> 'w EditorPrivate \<Rightarrow> 'w EditorPrivate" where
  "gotoLine ev lineNumber d =
     snd (executeJavaScript ev (''editor.gotoLine('' @ number (sint lineNumber) @ '')'') d)"

definition text' :: "'w evaluate \<Rightarrow> 'w EditorPrivate \<Rightarrow> string \<times> 'w EditorPrivate" where
  "text' ev d = (case executeJavaScript ev ''property('text')'' d of (v, d') \<Rightarrow> (toString v, d'))"

definition setText :: "'w evaluate \<Rightarrow> string \<Rightarrow> 'w EditorPrivate \<Rightarrow> 'w EditorPrivate" where
  "setText ev newText d =
     (let d1 = snd (executeJavaScript ev (''editor.setValue('' @ [sq] @ newText @ [sq] @ '')'') d)
      in snd (executeJavaScript ev ''editor.selection.clearSelection()'' d1))"

definition isReadOnly :: "'w evaluate \<Rightarrow> 'w EditorPrivate \<Rightarrow> bool \<times> 'w EditorPrivate" where
  "isReadOnly ev d =
     (case executeJavaScript ev ''property('readonly')'' d of (v, d') \<Rightarrow> (toBool v, d'))"

text \<open>
  The two branches are the two adjacent string literals of the source, glued as the C++
  compiler glues them.
\<close>

definition setReadOnly :: "'w evaluate \<Rightarrow> bool \<Rightarrow> 'w EditorPrivate \<Rightarrow> 'w EditorPrivate" where
  "setReadOnly ev readOnly d =
     (if readOnly then
        snd (executeJavaScript ev (''property('readonly', true);'' @ ''editor.setReadOnly(true);'') d)
      else
        snd (executeJavaScript ev (''property('readonly', false)'' @ ''editor.setReadOnly(false);'') d))"

text \<open>
  The enumerations are declared in \<open>editor.h\<close>, which is not among the sources; the
  enumerators are the case labels of the two switches. An argument of the enumeration
  type need not be one of the enumerators (any integer the type can hold can be cast to
  it): such a value is \<open>ModeOther\<close>, respectively \<open>ThemeOther\<close>, with the integer.
\<close>

datatype HighlightMode =
    ModeCpp | ModeCss | ModeHtml | ModeJavaScript | ModePascal
  | ModePhp | ModePython | ModeRuby | ModeXml
  | ModeOther int

datatype Theme = ThemeAmbiance | ThemeMonokai | ThemeTextMate | ThemeOther int

definition setHighlightMode_name_url ::
  "'w evaluate \<Rightarrow> string \<Rightarrow> QUrl \<Rightarrow> 'w EditorPrivate \<Rightarrow> 'w EditorPrivate" where
  "setHighlightMode_name_url ev name url d =
     (let request = [] @
            ''$.getScript('' @ [sq] @ url_toString url @ ''');'' @
            ''editor.getSession().setMode('ace/mode/'' @ name @ ''');''
      in snd (executeJavaScript ev request d))"

fun setHighlightMode :: "'w evaluate \<Rightarrow> HighlightMode \<Rightarrow> 'w EditorPrivate \<Rightarrow> 'w EditorPrivate" where
  "setHighlightMode ev ModeCpp d =
     setHighlightMode_name_url ev ''c_cpp'' (QUrl ''qrc:/ace/mode-c_cpp.js'') d"
| "setHighlightMode ev ModeCss d =
     setHighlightMode_name_url ev ''css'' (QUrl ''qrc:/ace/mode-css.js'') d"
| "setHighlightMode ev ModeHtml d =
     setHighlightMode_name_url ev ''html'' (QUrl ''qrc:/ace/mode-html.js'') d"
| "setHighlightMode ev ModeJavaScript d =
     setHighlightMode_name_url ev ''javascript'' (QUrl ''qrc:/ace/mode-javascript.js'') d"
| "setHighlightMode ev ModePascal d =
     setHighlightMode_name_url ev ''pascal'' (QUrl ''qrc:/ace/mode-pascal.js'') d"
| "setHighlightMode ev ModePhp d =
     setHighlightMode_name_url ev ''php'' (QUrl ''qrc:/ace/mode-php.js'') d"
| "setHighlightMode ev ModePython d =
     setHighlightMode_name_url ev ''python'' (QUrl ''qrc:/ace/mode-python.js'') d"
| "setHighlightMode ev ModeRuby d =
     setHighlightMode_name_url ev ''ruby'' (QUrl ''qrc:/ace/mode-ruby.js'') d"
| "setHighlightMode ev ModeXml d =
     setHighlightMode_name_url ev ''xml'' (QUrl ''qrc:/ace/mode-xml.js'') d"
| "setHighlightMode ev (ModeOther n) d = d"

definition setTheme_name_url ::
  "'w evaluate \<Rightarrow> string \<Rightarrow> QUrl \<Rightarrow> 'w EditorPrivate \<Rightarrow> 'w EditorPrivate" where
  "setTheme_name_url ev name url d =
     (let request = [] @
            ''$.getScript('' @ [sq] @ url_toString url @ ''');'' @
            ''editor.setTheme('ace/theme/'' @ name @ ''');''
      in snd (executeJavaScript ev request d))"

fun setTheme :: "'w evaluate \<Rightarrow> Theme \<Rightarrow> 'w EditorPrivate \<Rightarrow> 'w EditorPrivate" where
  "setTheme ev ThemeAmbiance d =
     setTheme_name_url ev ''ambiance'' (QUrl ''qrc:/ace/theme-ambiance.js'') d"
| "setTheme ev ThemeMonokai d =
     setTheme_name_url ev ''monokai'' (QUrl ''qrc:/ace/theme-monokai.js'') d"
| "setTheme ev ThemeTextMate d =
     setTheme_name_url ev ''textmate'' (QUrl ''qrc:/ace/theme-textmate.js'') d"
| "setTheme ev (ThemeOther n) d = d"

subsection \<open>Calls of the public operations\<close>

text \<open>
  \<open>call\<close> lists the public operations with their arguments. \<open>do_call\<close> makes one call
  and \<open>do_calls\<close> a sequence of them, one after the other on the one thread there is;
  the results of the three queries are dropped, the history and the page are kept.
\<close>

datatype call =
    Lines
  | GotoLine "32 word"
  | Text
  | SetText string
  | IsReadOnly
  | SetReadOnly bool
  | SetHighlightMode HighlightMode
  | SetHighlightModeNameUrl string QUrl
  | SetTheme Theme
  | SetThemeNameUrl string QUrl

fun do_call :: "'w evaluate \<Rightarrow> call \<Rightarrow> 'w EditorPrivate \<Rightarrow> 'w EditorPrivate" where
  "do_call ev Lines d = snd (lines ev d)"
| "do_call ev (GotoLine n) d = gotoLine ev n d"
| "do_call ev Text d = snd (text' ev d)"
| "do_call ev (SetText s) d = setText ev s d"
| "do_call ev IsReadOnly d = snd (isReadOnly ev d)"
| "do_call ev (SetReadOnly b) d = setReadOnly ev b d"
| "do_call ev (SetHighlightMode m) d = setHighlightMode ev m d"
| "do_call ev (SetHighlightModeNameUrl name url) d = setHighlightMode_name_url ev name url d"
| "do_call ev (SetTheme t) d = setTheme ev t d"
| "do_call ev (SetThemeNameUrl name url) d = setTheme_name_url ev name url d"


subsection \<open>Construction: \<open>startAceWidget\<close> and the constructor\<close>

text \<open>
  \<open>startAceWidget\<close> connects \<open>loadFinished\<close> to the \<open>quit\<close> of a local \<open>QEventLoop\<close>,
  starts the load and enters \<open>loop.exec()\<close>. That loop is a full event loop of the
  thread: until it quits it dispatches whatever events arrive, and a slot of the
  application run from it can call the public operations of the widget, whose \<open>d\<close> is
  already set (the member initialiser has run) and which is already a child of its
  parent. \<open>loop_event\<close> is what the loop dispatches that touches the widget: a slot that
  makes a \<open>call\<close>, or the \<open>loadFinished(ok)\<close> signal.

  \<open>loop_exec\<close> is \<open>loop.exec()\<close> on the events that arrive, in their order. The first
  \<open>loadFinished\<close> quits the loop, with either value of \<open>ok\<close>; later events stay in the
  queue of the application. \<open>None\<close> is the loop that never quits, because no
  \<open>loadFinished\<close> arrives.
\<close>

datatype loop_event = Slot call | Finished bool

fun loop_exec :: "'w WebView \<Rightarrow> loop_event list \<Rightarrow> 'w EditorPrivate \<Rightarrow> 'w EditorPrivate option" where
  "loop_exec h [] d = None"
| "loop_exec h (Slot c # es) d = loop_exec h es (do_call (evaluateJavaScript h) c d)"
| "loop_exec h (Finished ok # es) d =
     Some (d\<lparr>aceView := loadFinished h ok (aceView d), issued := issued d @ [LoadFinished ok]\<rparr>)"

definition startAceWidget ::
  "'w WebView \<Rightarrow> loop_event list \<Rightarrow> 'w EditorPrivate \<Rightarrow> 'w EditorPrivate option" where
  "startAceWidget h es d =
     (let d1 = d\<lparr>aceView := load h ''qrc:/html/ace.html'' (aceView d),
                  issued := issued d @ [Load ''qrc:/html/ace.html'']\<rparr>
      in case loop_exec h es d1 of
           None \<Rightarrow> None
         | Some d2 \<Rightarrow>
             let d3 = d2\<lparr>aceView := addToJavaScriptWindowObject h ''Novile'' (aceView d2),
                         issued := issued d2 @ [AddObject ''Novile'']\<rparr>
             in (case readAll h '':/html/wrapper.js'' of
                   None \<Rightarrow> Some d3
                 | Some listeners \<Rightarrow>
                     Some (snd (executeJavaScript (evaluateJavaScript h) listeners d3))))"

text \<open>
  The constructor: a fresh \<open>EditorPrivate\<close> around the web view, then \<open>startAceWidget\<close>.
  \<open>es\<close> are the events that arrive while it waits.
\<close>

definition Editor :: "'w WebView \<Rightarrow> 'w \<Rightarrow> loop_event list \<Rightarrow> 'w EditorPrivate option" where
  "Editor h w es = startAceWidget h es \<lparr>aceView = w, issued = []\<rparr>"





fun in_order :: "event list \<Rightarrow> event list \<Rightarrow> bool" where
  "in_order [] ys = True"
| "in_order (x # xs) [] = False"
| "in_order (x # xs) (y # ys) = (if x = y then in_order xs ys else in_order (x # xs) ys)"


text \<open>
  Two web views to run the model on. \<open>bundled_view\<close> has its resources: the helper
  script opens. \<open>bare_view\<close> is the widget without its resources (the resource file was
  not linked in): the helper script does not open. Neither has a page that answers:
  every evaluation yields the invalid variant.
\<close>

definition no_page :: "unit evaluate" where
  "no_page code w = (QInvalid, w)"



subsection \<open>JavaScript string literals\<close>

text \<open>
  Modelled from the spec: the JavaScript engine is not part of the sources; the
  specification only says that the snippets are JavaScript source. \<open>sq_lit\<close> reads the
  body of a single-quoted string literal as the language defines it, starting after the
  opening quote: it returns the string the literal denotes and the input after the closing
  quote, or \<open>None\<close> when there is no well-formed literal. An unescaped quote ends the
  literal, a raw line terminator is not allowed inside it, and a backslash starts an
  escape sequence (a line continuation, \<open>\x\<close> with two and \<open>\u\<close> with four hexadecimal
  digits, a control character, or the escaped character itself). Code units are bytes
  here, so \<open>\u\<close> keeps the low byte; the octal escapes of old JavaScript are not modelled.
\<close>

datatype lit_state = Body | Escape | Continued | Hex nat nat

definition hex_val :: "char \<Rightarrow> nat option" where
  "hex_val c =
     (let n = (of_char c :: nat) in
      if 48 \<le> n \<and> n \<le> 57 then Some (n - 48)
      else if 65 \<le> n \<and> n \<le> 70 then Some (n - 55)
      else if 97 \<le> n \<and> n \<le> 102 then Some (n - 87)
      else None)"

definition escape_char :: "char \<Rightarrow> char" where
  "escape_char c =
     (if c = CHR ''n'' then CHR 0x0A
      else if c = CHR ''r'' then CHR 0x0D
      else if c = CHR ''t'' then CHR 0x09
      else if c = CHR ''b'' then CHR 0x08
      else if c = CHR ''f'' then CHR 0x0C
      else if c = CHR ''v'' then CHR 0x0B
      else if c = CHR ''0'' then CHR 0x00
      else c)"

definition emit :: "char \<Rightarrow> (string \<times> string) option \<Rightarrow> (string \<times> string) option" where
  "emit c r = map_option (\<lambda>(v, rest). (c # v, rest)) r"

fun sq_lit :: "lit_state \<Rightarrow> string \<Rightarrow> (string \<times> string) option" where
  "sq_lit st [] = None"
| "sq_lit Body (c # cs) =
     (if c = sq then Some ([], cs)
      else if c = backslash then sq_lit Escape cs
      else if c = LF \<or> c = CR then None
      else emit c (sq_lit Body cs))"
| "sq_lit Escape (c # cs) =
     (if c = CHR ''x'' then sq_lit (Hex 2 0) cs
      else if c = CHR ''u'' then sq_lit (Hex 4 0) cs
      else if c = LF then sq_lit Body cs
      else if c = CR then sq_lit Continued cs
      else emit (escape_char c) (sq_lit Body cs))"
| "sq_lit Continued (c # cs) =
     (if c = LF then sq_lit Body cs
      else if c = sq then Some ([], cs)
      else if c = backslash then sq_lit Escape cs
      else if c = CR then None
      else emit c (sq_lit Body cs))"
| "sq_lit (Hex k v) (c # cs) =
     (case hex_val c of
        None \<Rightarrow> None
      | Some x \<Rightarrow>
          if k \<le> 1 then emit (char_of (16 * v + x)) (sq_lit Body cs)
          else sq_lit (Hex (k - 1) (16 * v + x)) cs)"

fun strip_prefix :: "string \<Rightarrow> string \<Rightarrow> string option" where
  "strip_prefix [] ys = Some ys"
| "strip_prefix (x # xs) [] = None"
| "strip_prefix (x # xs) (y # ys) = (if x = y then strip_prefix xs ys else None)"

text \<open>
  Modelled from the spec: \<open>string_arg\<close> reads the rest of a call after its opening
  parenthesis as exactly one single-quoted literal and the closing parenthesis, and
  gives the string the literal denotes.
\<close>

definition string_arg :: "string \<Rightarrow> string option" where
  "string_arg r =
     (case r of
        [] \<Rightarrow> None
      | c # r' \<Rightarrow>
          if c = sq then
            (case sq_lit Body r' of
               None \<Rightarrow> None
             | Some (v, rest) \<Rightarrow> if rest = '')'' then Some v else None)
          else None)"

text \<open>
  Modelled from the spec: \<open>setValue_argument\<close> says whether a snippet is a well-formed
  call of the editor's value-setter with a single string literal, and if so which string
  the call passes.
\<close>

definition setValue_argument :: "string \<Rightarrow> string option" where
  "setValue_argument code =
     (case strip_prefix ''editor.setValue('' code of None \<Rightarrow> None | Some r \<Rightarrow> string_arg r)"

subsection \<open>The page\<close>

text \<open>
  Modelled from the spec: the page (\<open>ace.html\<close>, \<open>wrapper.js\<close> and the Ace library) is
  not among the sources. The specification describes it through what the snippets do: a
  page-side property \<open>readonly\<close> that is read and written, the editor's own read-only
  flag, the editor's text behind the value-setter and the \<open>text\<close> property, and the
  line count behind \<open>lines\<close>; text and line count are not cached but read from the live
  editor. \<open>page\<close> is the state of the page once it is bootstrapped.
\<close>

record page =
  editor_value :: string
  editor_readOnly :: bool
  readonly_property :: bool
  session_mode :: string
  editor_theme :: string

text \<open>
  Modelled from the spec: the statements the page understands are the calls the facade
  issues. \<open>gotoLine\<close>, \<open>clearSelection\<close> and \<open>getScript\<close> act on parts of the page
  that \<open>page\<close> does not track (cursor, selection, loaded scripts).
\<close>

datatype js_stmt =
    JsEmpty
  | JsPropertyGet string
  | JsPropertySet string bool
  | JsSetReadOnly bool
  | JsSetValue string
  | JsClearSelection
  | JsGotoLine int
  | JsGetScript string
  | JsSetMode string
  | JsSetTheme string

text \<open>
  Modelled from the spec: a snippet is a sequence of statements separated by semicolons.
  \<open>split_stmts\<close> cuts the source at every semicolon outside a string literal; it fails
  when a literal is left open. Nothing but a semicolon separates two statements here:
  the snippets are single lines, so no line break can stand in for one.
\<close>

datatype scan = Code | Lit | LitEsc

fun split_stmts :: "scan \<Rightarrow> string \<Rightarrow> string \<Rightarrow> string list option" where
  "split_stmts st acc [] = (if st = Code then Some [rev acc] else None)"
| "split_stmts Code acc (c # cs) =
     (if c = CHR '';'' then map_option ((#) (rev acc)) (split_stmts Code [] cs)
      else split_stmts (if c = sq then Lit else Code) (c # acc) cs)"
| "split_stmts Lit acc (c # cs) =
     split_stmts (if c = sq then Code else if c = backslash then LitEsc else Lit) (c # acc) cs"
| "split_stmts LitEsc acc (c # cs) = split_stmts Lit (c # acc) cs"

definition bool_arg :: "string \<Rightarrow> bool option" where
  "bool_arg r = (if r = ''true)'' then Some True else if r = ''false)'' then Some False else None)"

definition int_arg :: "string \<Rightarrow> int option" where
  "int_arg r = (if r \<noteq> [] \<and> last r = CHR '')'' then read_number (butlast r) else None)"

definition property_args :: "string \<Rightarrow> js_stmt option" where
  "property_args r =
     (case r of
        [] \<Rightarrow> None
      | c # r' \<Rightarrow>
          if c = sq then
            (case sq_lit Body r' of
               None \<Rightarrow> None
             | Some (name, rest) \<Rightarrow>
                 if rest = '')'' then Some (JsPropertyGet name)
                 else (case strip_prefix '','' rest of
                         None \<Rightarrow> None
                       | Some r2 \<Rightarrow>
                           map_option (JsPropertySet name)
                             (bool_arg (dropWhile (\<lambda>c. c = CHR '' '') r2))))
          else None)"

text \<open>
  Modelled from the spec: \<open>parse_stmt\<close> reads one statement. It must be one of the calls
  from its first to its last character; anything else is not a statement of the page.
\<close>

definition parse_stmt :: "string \<Rightarrow> js_stmt option" where
  "parse_stmt chunk =
     (if chunk = [] then Some JsEmpty
      else if chunk = ''editor.selection.clearSelection()'' then Some JsClearSelection
      else case strip_prefix ''property('' chunk of Some r \<Rightarrow> property_args r | None \<Rightarrow>
        (case strip_prefix ''editor.setReadOnly('' chunk of
           Some r \<Rightarrow> map_option JsSetReadOnly (bool_arg r) | None \<Rightarrow>
        (case strip_prefix ''editor.setValue('' chunk of
           Some r \<Rightarrow> map_option JsSetValue (string_arg r) | None \<Rightarrow>
        (case strip_prefix ''editor.gotoLine('' chunk of
           Some r \<Rightarrow> map_option JsGotoLine (int_arg r) | None \<Rightarrow>
        (case strip_prefix ''$.getScript('' chunk of
           Some r \<Rightarrow> map_option JsGetScript (string_arg r) | None \<Rightarrow>
        (case strip_prefix ''editor.getSession().setMode('' chunk of
           Some r \<Rightarrow> map_option JsSetMode (string_arg r) | None \<Rightarrow>
        (case strip_prefix ''editor.setTheme('' chunk of
           Some r \<Rightarrow> map_option JsSetTheme (string_arg r) | None \<Rightarrow> None)))))))"

definition parse_program :: "string \<Rightarrow> js_stmt list option" where
  "parse_program code =
     (case split_stmts Code [] code of
        None \<Rightarrow> None
      | Some chunks \<Rightarrow> those (map parse_stmt chunks))"

text \<open>
  Modelled from the spec: what a statement does to the page and what it evaluates to. The
  three properties read the live page; a call that returns nothing evaluates to the
  invalid variant.
\<close>

definition line_count :: "string \<Rightarrow> int" where
  "line_count v = 1 + int (length (filter (\<lambda>c. c = LF) v))"

definition property_get :: "string \<Rightarrow> page \<Rightarrow> QVariant" where
  "property_get name p =
     (if name = ''lines'' then QInt (line_count (editor_value p))
      else if name = ''text'' then QString (editor_value p)
      else if name = ''readonly'' then QBool (readonly_property p)
      else QInvalid)"

fun exec_stmt :: "js_stmt \<Rightarrow> page \<Rightarrow> QVariant \<times> page" where
  "exec_stmt JsEmpty p = (QInvalid, p)"
| "exec_stmt (JsPropertyGet name) p = (property_get name p, p)"
| "exec_stmt (JsPropertySet name b) p =
     (QInvalid, if name = ''readonly'' then p\<lparr>readonly_property := b\<rparr> else p)"
| "exec_stmt (JsSetReadOnly b) p = (QInvalid, p\<lparr>editor_readOnly := b\<rparr>)"
| "exec_stmt (JsSetValue s) p = (QInvalid, p\<lparr>editor_value := s\<rparr>)"
| "exec_stmt JsClearSelection p = (QInvalid, p)"
| "exec_stmt (JsGotoLine n) p = (QInvalid, p)"
| "exec_stmt (JsGetScript url) p = (QInvalid, p)"
| "exec_stmt (JsSetMode m) p = (QInvalid, p\<lparr>session_mode := m\<rparr>)"
| "exec_stmt (JsSetTheme t) p = (QInvalid, p\<lparr>editor_theme := t\<rparr>)"

text \<open>The value of a snippet is the value of its last statement that is not empty.\<close>

fun exec_stmts :: "js_stmt list \<Rightarrow> QVariant \<Rightarrow> page \<Rightarrow> QVariant \<times> page" where
  "exec_stmts [] v p = (v, p)"
| "exec_stmts (JsEmpty # ss) v p = exec_stmts ss v p"
| "exec_stmts (s # ss) v p = (case exec_stmt s p of (v', p') \<Rightarrow> exec_stmts ss v' p')"

text \<open>
  Modelled from the spec: the evaluation of a snippet in the page. A snippet that does
  not parse is a syntax error: nothing of it runs, the page stays as it is and the result
  is the invalid variant (section 4.1: a failing evaluation gives an undefined value, not
  an error).
\<close>

definition page_eval :: "page evaluate" where
  "page_eval code p =
     (case parse_program code of
        None \<Rightarrow> (QInvalid, p)
      | Some stmts \<Rightarrow> exec_stmts stmts QInvalid p)"

text \<open>A freshly bootstrapped page: an empty, writable document.\<close>

definition fresh_page :: page where
  "fresh_page =
     \<lparr>editor_value = [], editor_readOnly = False, readonly_property = False,
      session_mode = [], editor_theme = []\<rparr>"

definition fresh_editor :: "page EditorPrivate" where
  "fresh_editor = \<lparr>aceView = fresh_page, issued = []\<rparr>"

text \<open>
  The texts that can stand between the quotes of a literal and denote themselves: no
  single quote, no backslash and no line terminator.
\<close>

definition literal_safe :: "string \<Rightarrow> bool" where
  "literal_safe s = list_all (\<lambda>c. c \<noteq> sq \<and> c \<noteq> backslash \<and> c \<noteq> LF \<and> c \<noteq> CR) s"

subsection \<open>The documented tables\<close>

text \<open>
  The specification's tables, in its own words: every enumerated mode and theme has an
  identifier, and its resource is the script \<open>mode-<id>.js\<close>, respectively
  \<open>theme-<id>.js\<close>, among the bundled Ace files. The operations above do not use these
  tables; they are what the two switches are compared with.
\<close>

fun mode_identifier :: "HighlightMode \<Rightarrow> string option" where
  "mode_identifier ModeCpp = Some ''c_cpp''"
| "mode_identifier ModeCss = Some ''css''"
| "mode_identifier ModeHtml = Some ''html''"
| "mode_identifier ModeJavaScript = Some ''javascript''"
| "mode_identifier ModePascal = Some ''pascal''"
| "mode_identifier ModePhp = Some ''php''"
| "mode_identifier ModePython = Some ''python''"
| "mode_identifier ModeRuby = Some ''ruby''"
| "mode_identifier ModeXml = Some ''xml''"
| "mode_identifier (ModeOther n) = None"

definition mode_resource :: "string \<Rightarrow> QUrl" where
  "mode_resource name = QUrl (''qrc:/ace/mode-'' @ name @ ''.js'')"

fun theme_identifier :: "Theme \<Rightarrow> string option" where
  "theme_identifier ThemeAmbiance = Some ''ambiance''"
| "theme_identifier ThemeMonokai = Some ''monokai''"
| "theme_identifier ThemeTextMate = Some ''textmate''"
| "theme_identifier (ThemeOther n) = None"

definition theme_resource :: "string \<Rightarrow> QUrl" where
  "theme_resource name = QUrl (''qrc:/ace/theme-'' @ name @ ''.js'')"

section \<open>Properties\<close>

subsection \<open>The bridge's evaluation primitive\<close>

lemma issued_executeJavaScript:
  "issued (snd (executeJavaScript ev code d)) = issued d @ [Evaluate code]"
  by (simp add: executeJavaScript_def split: prod.splits)

lemma aceView_executeJavaScript:
  "aceView (snd (executeJavaScript ev code d)) = snd (ev code (aceView d))"
  by (simp add: executeJavaScript_def split: prod.splits)

subsection \<open>Decimal numbers\<close>

lemma is_digit_digit_char: "d < 10 \<Longrightarrow> is_digit (digit_char d)"
  by (simp add: is_digit_def digit_char_def)

lemma digit_val_digit_char: "d < 10 \<Longrightarrow> digit_val (digit_char d) = d"
  by (simp add: digit_val_def digit_char_def)

lemma digits_val_append:
  "digits_val acc (xs @ [c]) =
     (case digits_val acc xs of
        None \<Rightarrow> None
      | Some v \<Rightarrow> if is_digit c then Some (10 * v + digit_val c) else None)"
  by (induction xs arbitrary: acc) auto

lemma digits_val_digits: "digits_val 0 (digits n) = Some n"
proof (induction n rule: digits.induct)
  case (1 n)
  show ?case
  proof (cases "n < 10")
    case True
    then show ?thesis
      by (subst digits.simps) (simp add: is_digit_digit_char digit_val_digit_char)
  next
    case False
    with 1 have "digits_val 0 (digits (n div 10)) = Some (n div 10)" by simp
    with False show ?thesis
      by (subst digits.simps)
         (simp add: digits_val_append is_digit_digit_char digit_val_digit_char)
  qed
qed

lemma digits_not_Nil: "digits n \<noteq> []"
  by (subst digits.simps) simp

lemma hd_digits_is_digit: "is_digit (hd (digits n))"
proof (induction n rule: digits.induct)
  case (1 n)
  show ?case
  proof (cases "n < 10")
    case True
    then show ?thesis by (subst digits.simps) (simp add: is_digit_digit_char)
  next
    case False
    with 1 have "is_digit (hd (digits (n div 10)))" by simp
    with False show ?thesis
      by (subst digits.simps) (simp add: digits_not_Nil)
  qed
qed

lemma minus_not_digit: "\<not> is_digit CHR ''-''"
  by (simp add: is_digit_def)

text \<open>The text \<open>QString::number\<close> writes reads back as the number it was written from.\<close>

lemma read_number_number: "read_number (number n) = Some n"
proof (cases "n < 0")
  case True
  then show ?thesis
    by (simp add: read_number_def number_def digits_val_digits digits_not_Nil)
next
  case False
  obtain c cs where eq: "digits (nat n) = c # cs"
    using digits_not_Nil [of "nat n"] by (cases "digits (nat n)") auto
  have "is_digit c" using hd_digits_is_digit [of "nat n"] eq by simp
  then have "c \<noteq> CHR ''-''" using minus_not_digit by auto
  moreover have "digits_val 0 (c # cs) = Some (nat n)"
    using digits_val_digits [of "nat n"] eq by simp
  ultimately show ?thesis using False eq
    by (simp add: read_number_def number_def)
qed

lemma number_minus_one: "number (- 1) = ''-1''"
  by code_simp

subsection \<open>String literals\<close>

lemma sq_lit_safe:
  "literal_safe s \<Longrightarrow> sq_lit Body (s @ sq # rest) = Some (s, rest)"
  by (induction s) (simp_all add: literal_safe_def emit_def)

text \<open>Reading a literal uses up at least its closing quote, and two characters for an escape.\<close>

lemma sq_lit_shorter:
  "sq_lit st inp = Some (v, rest) \<Longrightarrow> length v + length rest < length inp"
proof (induction st inp arbitrary: v rest rule: sq_lit.induct)
  case (1 st)
  then show ?case by simp
next
  case (2 c cs)
  then show ?case by (fastforce simp: emit_def split: if_splits)
next
  case (3 c cs)
  then show ?case by (fastforce simp: emit_def split: if_splits)
next
  case (4 c cs)
  then show ?case by (fastforce simp: emit_def split: if_splits)
next
  case (5 k x c cs)
  then show ?case by (fastforce simp: emit_def split: if_splits option.splits)
qed

lemma sq_lit_self_safe:
  "sq_lit Body (s @ sq # rest) = Some (s, rest) \<Longrightarrow> literal_safe s"
proof (induction s)
  case Nil
  then show ?case by (simp add: literal_safe_def)
next
  case (Cons c s)
  have c1: "c \<noteq> sq" using Cons.prems by auto
  have c2: "c \<noteq> backslash"
  proof
    assume "c = backslash"
    with c1 Cons.prems have "sq_lit Escape (s @ sq # rest) = Some (c # s, rest)" by simp
    from sq_lit_shorter [OF this] show False by simp
  qed
  have c3: "c \<noteq> LF \<and> c \<noteq> CR" using Cons.prems c1 c2 by (auto split: if_splits)
  from Cons.prems c1 c2 c3 have "sq_lit Body (s @ sq # rest) = Some (s, rest)"
    by (auto simp: emit_def split: if_splits)
  then have "literal_safe s" by (rule Cons.IH)
  with c1 c2 c3 show ?case by (simp add: literal_safe_def)
qed

text \<open>
  The snippet of \<open>setText\<close> is a call that passes \<open>s\<close> exactly when \<open>s\<close> has no single
  quote, no backslash and no line terminator.
\<close>

lemma setValue_argument_iff:
  "setValue_argument (''editor.setValue('' @ [sq] @ s @ [sq] @ '')'') = Some s \<longleftrightarrow> literal_safe s"
proof
  assume "literal_safe s"
  from sq_lit_safe [OF this, of "'')''"]
  show "setValue_argument (''editor.setValue('' @ [sq] @ s @ [sq] @ '')'') = Some s"
    by (simp add: setValue_argument_def string_arg_def)
next
  assume a: "setValue_argument (''editor.setValue('' @ [sq] @ s @ [sq] @ '')'') = Some s"
  then obtain v rest where r: "sq_lit Body (s @ sq # '')'') = Some (v, rest)"
    by (auto simp: setValue_argument_def string_arg_def split: option.splits)
  with a have "v = s" "rest = '')''"
    by (auto simp: setValue_argument_def string_arg_def split: if_splits)
  with r show "literal_safe s" using sq_lit_self_safe by blast
qed

subsection \<open>The snippets in the page\<close>







lemma page_eval_property_readonly:
  "page_eval ''property('readonly')'' p = (QBool (readonly_property p), p)"
  by (simp add: page_eval_def parse_program_def parse_stmt_def property_args_def property_get_def
      sq_def backslash_def LF_def CR_def emit_def)

lemma parse_setReadOnly_true:
  "parse_program (''property('readonly', true);'' @ ''editor.setReadOnly(true);'')
     = Some [JsPropertySet ''readonly'' True, JsSetReadOnly True, JsEmpty]"
  by (simp add: parse_program_def parse_stmt_def property_args_def bool_arg_def
      sq_def backslash_def LF_def CR_def emit_def)

lemma parse_setReadOnly_false:
  "parse_program (''property('readonly', false)'' @ ''editor.setReadOnly(false);'') = None"
  by (simp add: parse_program_def parse_stmt_def property_args_def bool_arg_def
      sq_def backslash_def LF_def CR_def emit_def)

lemma page_eval_setReadOnly_true:
  "page_eval (''property('readonly', true);'' @ ''editor.setReadOnly(true);'') p
     = (QInvalid, p\<lparr>readonly_property := True, editor_readOnly := True\<rparr>)"
  by (simp add: page_eval_def parse_setReadOnly_true del: append.simps)

lemma page_eval_setReadOnly_false:
  "page_eval (''property('readonly', false)'' @ ''editor.setReadOnly(false);'') p = (QInvalid, p)"
  by (simp add: page_eval_def parse_setReadOnly_false del: append.simps)

text \<open>With the separator the source leaves out, the second snippet would do its work.\<close>

lemma page_eval_setReadOnly_false_separated:
  "page_eval (''property('readonly', false);'' @ ''editor.setReadOnly(false);'') p
     = (QInvalid, p\<lparr>readonly_property := False, editor_readOnly := False\<rparr>)"
  by (simp add: page_eval_def parse_program_def parse_stmt_def property_args_def bool_arg_def
      sq_def backslash_def LF_def CR_def emit_def)

subsection \<open>The read-only flag\<close>

lemma setReadOnly_true_consistent:
  "fst (isReadOnly page_eval (setReadOnly page_eval True d)) = True
   \<and> readonly_property (aceView (setReadOnly page_eval True d)) = True
   \<and> editor_readOnly (aceView (setReadOnly page_eval True d)) = True"
  by (simp add: setReadOnly_def isReadOnly_def executeJavaScript_def page_eval_setReadOnly_true
      page_eval_property_readonly del: append.simps split: prod.splits)

text \<open>
  C1. After \<open>setReadOnly(true)\<close> the query answers true, but \<open>setReadOnly(false)\<close> does not
  take it back. Its snippet is the two calls glued with no semicolon between them
  (the \<open>true\<close> branch has one), which is not a program: the page runs nothing of it and
  stays as it was. So after \<open>setReadOnly(true)\<close> and then \<open>setReadOnly(false)\<close>,
  \<open>isReadOnly()\<close> still answers true.
\<close>

theorem setReadOnly_false_is_lost:
  "issued (setReadOnly page_eval False d) =
     issued d @ [Evaluate ''property('readonly', false)editor.setReadOnly(false);'']
   \<and> parse_program ''property('readonly', false)editor.setReadOnly(false);'' = None
   \<and> aceView (setReadOnly page_eval False d) = aceView d
   \<and> fst (isReadOnly page_eval (setReadOnly page_eval False (setReadOnly page_eval True d))) = True"
proof -
  have "issued (setReadOnly page_eval False d) =
     issued d @ [Evaluate ''property('readonly', false)editor.setReadOnly(false);'']"
    by (simp add: setReadOnly_def issued_executeJavaScript)
  moreover have "parse_program ''property('readonly', false)editor.setReadOnly(false);'' = None"
    using parse_setReadOnly_false by simp
  moreover have "aceView (setReadOnly page_eval False d) = aceView d"
    by (simp add: setReadOnly_def aceView_executeJavaScript page_eval_setReadOnly_false
        del: append.simps)
  moreover have
    "fst (isReadOnly page_eval (setReadOnly page_eval False (setReadOnly page_eval True d))) = True"
    by (simp add: setReadOnly_def isReadOnly_def executeJavaScript_def page_eval_setReadOnly_true
        page_eval_setReadOnly_false page_eval_property_readonly del: append.simps
        split: prod.splits)
  ultimately show ?thesis by simp
qed

subsection \<open>\<open>setText\<close> and \<open>text\<close>\<close>

text \<open>
  C2. For every string \<open>s\<close>, \<open>setText\<close> evaluates \<open>editor.setValue('\<close> followed by \<open>s\<close> as
  it is and by \<open>')\<close>, then the snippet that clears the selection. Nothing is escaped, so
  for a text that is a single quote, and for one that is a backslash, the snippet is not
  a call of the value-setter that passes the text as one string literal.
\<close>

theorem setText_snippet_unescaped:
  "issued (setText ev s d) =
     issued d @ [Evaluate (''editor.setValue('' @ [sq] @ s @ [sq] @ '')''),
                 Evaluate ''editor.selection.clearSelection()'']
   \<and> setValue_argument (''editor.setValue('' @ [sq] @ [sq] @ [sq] @ '')'') \<noteq> Some [sq]
   \<and> setValue_argument (''editor.setValue('' @ [sq] @ [backslash] @ [sq] @ '')'') \<noteq> Some [backslash]"
proof -
  have "issued (setText ev s d) =
     issued d @ [Evaluate (''editor.setValue('' @ [sq] @ s @ [sq] @ '')''),
                 Evaluate ''editor.selection.clearSelection()'']"
    by (simp add: setText_def Let_def issued_executeJavaScript del: append.simps)
  moreover have "setValue_argument (''editor.setValue('' @ [sq] @ [sq] @ [sq] @ '')'') = None"
    by (simp add: setValue_argument_def string_arg_def sq_def)
  moreover have "setValue_argument (''editor.setValue('' @ [sq] @ [backslash] @ [sq] @ '')'') = None"
    by (simp add: setValue_argument_def string_arg_def sq_def backslash_def LF_def CR_def
        escape_char_def emit_def)
  ultimately show ?thesis by simp
qed




subsection \<open>Failed evaluations\<close>

text \<open>
  C4. Whenever the evaluation behind a query yields the invalid variant (the script
  failed or its value is undefined), \<open>lines\<close> returns 0, \<open>text\<close> the empty string and
  \<open>isReadOnly\<close> false. The three queries are total functions into their result types:
  there is no error for them to pass on.
\<close>

theorem failed_evaluation_gives_defaults:
  "(fst (ev ''property('lines')'' (aceView d)) = QInvalid \<longrightarrow> fst (lines ev d) = 0)
   \<and> (fst (ev ''property('text')'' (aceView d)) = QInvalid \<longrightarrow> fst (text' ev d) = [])
   \<and> (fst (ev ''property('readonly')'' (aceView d)) = QInvalid \<longrightarrow> fst (isReadOnly ev d) = False)"
  by (auto simp: lines_def text'_def isReadOnly_def executeJavaScript_def split: prod.splits)

theorem failed_evaluation_gives_defaults_witness:
  "fst (no_page ''property('lines')'' ()) = QInvalid
   \<and> fst (no_page ''property('text')'' ()) = QInvalid
   \<and> fst (no_page ''property('readonly')'' ()) = QInvalid
   \<and> fst (lines no_page \<lparr>aceView = (), issued = []\<rparr>) = 0
   \<and> fst (text' no_page \<lparr>aceView = (), issued = []\<rparr>) = []
   \<and> fst (isReadOnly no_page \<lparr>aceView = (), issued = []\<rparr>) = False"
  using failed_evaluation_gives_defaults [of no_page "\<lparr>aceView = (), issued = []\<rparr>"]
  by (simp add: no_page_def)

subsection \<open>Highlight modes and themes\<close>

text \<open>
  C5. For each of the nine enumerated modes, \<open>setHighlightMode\<close> evaluates the snippet
  that loads \<open>qrc:/ace/mode-<id>.js\<close> and sets the session's mode to \<open>ace/mode/<id>\<close>,
  with the documented identifier: \<open>c_cpp\<close>, \<open>css\<close>, \<open>html\<close>, \<open>javascript\<close>, \<open>pascal\<close>,
  \<open>php\<close>, \<open>python\<close>, \<open>ruby\<close>, \<open>xml\<close>.
\<close>

theorem setHighlightMode_resolves:
  "setHighlightMode ev ModeCpp d =
     snd (executeJavaScript ev
       ''$.getScript('qrc:/ace/mode-c_cpp.js');editor.getSession().setMode('ace/mode/c_cpp');'' d)
   \<and> setHighlightMode ev ModeCss d =
     snd (executeJavaScript ev
       ''$.getScript('qrc:/ace/mode-css.js');editor.getSession().setMode('ace/mode/css');'' d)
   \<and> setHighlightMode ev ModeHtml d =
     snd (executeJavaScript ev
       ''$.getScript('qrc:/ace/mode-html.js');editor.getSession().setMode('ace/mode/html');'' d)
   \<and> setHighlightMode ev ModeJavaScript d =
     snd (executeJavaScript ev
       ''$.getScript('qrc:/ace/mode-javascript.js');editor.getSession().setMode('ace/mode/javascript');'' d)
   \<and> setHighlightMode ev ModePascal d =
     snd (executeJavaScript ev
       ''$.getScript('qrc:/ace/mode-pascal.js');editor.getSession().setMode('ace/mode/pascal');'' d)
   \<and> setHighlightMode ev ModePhp d =
     snd (executeJavaScript ev
       ''$.getScript('qrc:/ace/mode-php.js');editor.getSession().setMode('ace/mode/php');'' d)
   \<and> setHighlightMode ev ModePython d =
     snd (executeJavaScript ev
       ''$.getScript('qrc:/ace/mode-python.js');editor.getSession().setMode('ace/mode/python');'' d)
   \<and> setHighlightMode ev ModeRuby d =
     snd (executeJavaScript ev
       ''$.getScript('qrc:/ace/mode-ruby.js');editor.getSession().setMode('ace/mode/ruby');'' d)
   \<and> setHighlightMode ev ModeXml d =
     snd (executeJavaScript ev
       ''$.getScript('qrc:/ace/mode-xml.js');editor.getSession().setMode('ace/mode/xml');'' d)"
  by (simp add: setHighlightMode_name_url_def sq_def)

text \<open>
  C6. For each of the three enumerated themes, \<open>setTheme\<close> evaluates the snippet that
  loads \<open>qrc:/ace/theme-<id>.js\<close> and sets the editor's theme to \<open>ace/theme/<id>\<close>, with
  the documented identifier: \<open>ambiance\<close>, \<open>monokai\<close>, \<open>textmate\<close>.
\<close>

theorem setTheme_resolves:
  "setTheme ev ThemeAmbiance d =
     snd (executeJavaScript ev
       ''$.getScript('qrc:/ace/theme-ambiance.js');editor.setTheme('ace/theme/ambiance');'' d)
   \<and> setTheme ev ThemeMonokai d =
     snd (executeJavaScript ev
       ''$.getScript('qrc:/ace/theme-monokai.js');editor.setTheme('ace/theme/monokai');'' d)
   \<and> setTheme ev ThemeTextMate d =
     snd (executeJavaScript ev
       ''$.getScript('qrc:/ace/theme-textmate.js');editor.setTheme('ace/theme/textmate');'' d)"
  by (simp add: setTheme_name_url_def sq_def)

text \<open>
  C9. A \<open>HighlightMode\<close> argument that is none of the nine enumerators falls through the
  switch: \<open>setHighlightMode\<close> evaluates nothing and returns the widget as it was, history
  and page included. The same holds for \<open>setTheme\<close> and a \<open>Theme\<close> argument that is none
  of the three enumerators.
\<close>

theorem unlisted_enumerator_no_op:
  "(m \<notin> {ModeCpp, ModeCss, ModeHtml, ModeJavaScript, ModePascal, ModePhp, ModePython,
           ModeRuby, ModeXml} \<longrightarrow> setHighlightMode ev m d = d)
   \<and> (t \<notin> {ThemeAmbiance, ThemeMonokai, ThemeTextMate} \<longrightarrow> setTheme ev t d = d)"
  by (cases m; cases t) simp_all

theorem unlisted_enumerator_no_op_witness:
  "ModeOther 9 \<notin> {ModeCpp, ModeCss, ModeHtml, ModeJavaScript, ModePascal, ModePhp, ModePython,
           ModeRuby, ModeXml}
   \<and> ThemeOther 3 \<notin> {ThemeAmbiance, ThemeMonokai, ThemeTextMate}
   \<and> setHighlightMode page_eval (ModeOther 9) fresh_editor = fresh_editor
   \<and> setTheme page_eval (ThemeOther 3) fresh_editor = fresh_editor
   \<and> issued fresh_editor = []"
  using unlisted_enumerator_no_op [of "ModeOther 9" page_eval fresh_editor "ThemeOther 3"]
  by (simp add: fresh_editor_def)

text \<open>
  C10. For every enumerated mode, the enumeration overload of \<open>setHighlightMode\<close> gives
  the same widget (the same evaluations, the same page) as the overload that takes a name
  and a URL, applied to the mode's identifier and resource from the documented table; and
  so does \<open>setTheme\<close> for every enumerated theme.
\<close>

theorem enumeration_overload_is_escape_hatch:
  "(mode_identifier m = Some name \<longrightarrow>
      setHighlightMode ev m d = setHighlightMode_name_url ev name (mode_resource name) d)
   \<and> (theme_identifier t = Some tname \<longrightarrow>
      setTheme ev t d = setTheme_name_url ev tname (theme_resource tname) d)"
  by (cases m; cases t) (auto simp: mode_resource_def theme_resource_def)

theorem enumeration_overload_is_escape_hatch_witness:
  "mode_identifier ModeCpp = Some ''c_cpp''
   \<and> theme_identifier ThemeMonokai = Some ''monokai''
   \<and> setHighlightMode page_eval ModeCpp fresh_editor =
       setHighlightMode_name_url page_eval ''c_cpp'' (QUrl ''qrc:/ace/mode-c_cpp.js'') fresh_editor
   \<and> setTheme page_eval ThemeMonokai fresh_editor =
       setTheme_name_url page_eval ''monokai'' (QUrl ''qrc:/ace/theme-monokai.js'') fresh_editor"
  using enumeration_overload_is_escape_hatch
    [of ModeCpp "''c_cpp''" page_eval fresh_editor ThemeMonokai "''monokai''"]
  by (simp add: mode_resource_def theme_resource_def)

subsection \<open>\<open>gotoLine\<close>\<close>

text \<open>
  C8. \<open>gotoLine\<close> validates nothing: for every 32-bit \<open>lineNumber\<close>, in range or not, it
  makes exactly one evaluation, of the snippet that calls the editor's \<open>gotoLine\<close> with
  the decimal text of the number; the page is whatever that evaluation leaves, and the
  text in the snippet denotes the very number that was passed. What an out-of-range
  number does is up to the page.
\<close>

theorem gotoLine_unconditional:
  "issued (gotoLine ev n d) = issued d @ [Evaluate (''editor.gotoLine('' @ number (sint n) @ '')'')]
   \<and> aceView (gotoLine ev n d) = snd (ev (''editor.gotoLine('' @ number (sint n) @ '')'') (aceView d))
   \<and> read_number (number (sint n)) = Some (sint n)"
  by (simp add: gotoLine_def issued_executeJavaScript aceView_executeJavaScript read_number_number
      del: append.simps)

lemma gotoLine_minus_one:
  "issued (gotoLine ev (- 1) d) = issued d @ [Evaluate ''editor.gotoLine(-1)'']"
  by (simp add: gotoLine_def issued_executeJavaScript number_minus_one)

subsection \<open>Construction comes first\<close>




text \<open>The loop quits, and the constructor returns, exactly when a \<open>loadFinished\<close> arrives.\<close>

lemma loop_exec_returns_iff:
  "loop_exec h es d \<noteq> None \<longleftrightarrow> (\<exists>ok. Finished ok \<in> set es)"
proof (induction es arbitrary: d)
  case Nil
  then show ?case by simp
next
  case (Cons e es)
  then show ?case by (cases e) auto
qed

lemma Editor_returns_iff:
  "Editor h w es \<noteq> None \<longleftrightarrow> (\<exists>ok. Finished ok \<in> set es)"
proof -
  have "Editor h w es \<noteq> None \<longleftrightarrow>
        loop_exec h es \<lparr>aceView = load h ''qrc:/html/ace.html'' w,
                        issued = [Load ''qrc:/html/ace.html'']\<rparr> \<noteq> None"
    by (simp add: Editor_def startAceWidget_def Let_def split: option.splits)
  then show ?thesis using loop_exec_returns_iff by blast
qed



lemma in_order_append: "in_order xs ys \<Longrightarrow> in_order xs (ys @ zs)"
  by (induction xs ys rule: in_order.induct) (auto split: if_splits)





end
